theory Spec2Isabelle
  imports Main "HOL-Library.Word"
begin

section \<open>The OHTTP gateway resource\<close>

text \<open>
  The repository holds two revisions of the gateway resource, both in package main:
  \<^verbatim>\<open>src/gateway.go\<close> (encapsulation handlers, metrics, the debug flag, the marshal
  handler, the randomised cache lifetime) and \<^verbatim>\<open>src/unnamed/part_000\<close> (content
  handlers, the allow-list, decapsulation inside the gateway handler). The functions of
  \<^verbatim>\<open>gateway.go\<close> keep their names; those of \<^verbatim>\<open>part_000\<close> that share a name
  carry the suffix \<open>0\<close>.

  A handler is a function from the world before the call to the world after it. The
  world holds what a handler can change: the response writer, the log, the metric events
  fired, the calls made to registered handlers, and whether the request body was closed.
\<close>

subsection \<open>Strings, bytes and formatting\<close>

text \<open>Go strings and byte slices are both byte sequences: \<open>string\<close>.\<close>

definition newline :: string where
  "newline = [CHR 0x0A]"

text \<open>\<^verbatim>\<open>%d\<close> of \<^verbatim>\<open>fmt.Sprintf\<close> and \<^verbatim>\<open>strconv.Itoa\<close>: the decimal digits, most
  significant first, with a minus sign for a negative number.\<close>

definition digit_char :: "nat \<Rightarrow> char" where
  "digit_char d = ''0123456789'' ! d"

function dec_nat :: "nat \<Rightarrow> string" where
  "dec_nat n = (if n < 10 then [digit_char n] else dec_nat (n div 10) @ [digit_char (n mod 10)])"
  by pat_completeness auto
termination
  by (relation "measure (\<lambda>n. n)") auto

declare dec_nat.simps [simp del]

definition Itoa :: "int \<Rightarrow> string" where
  "Itoa i = (if i < 0 then CHR ''-'' # dec_nat (nat (- i)) else dec_nat (nat i))"

subsection \<open>The request\<close>

text \<open>
  \<^verbatim>\<open>http.Header\<close> is a map from a canonical key to the list of its values;
  \<^verbatim>\<open>Get\<close> returns the first value, or the empty string when there is none, and
  \<^verbatim>\<open>Set\<close> replaces the values of a key by one value.
\<close>

type_synonym header = "string \<rightharpoonup> string list"

definition Header_Get :: "header \<Rightarrow> string \<Rightarrow> string" where
  "Header_Get h k = (case h k of None \<Rightarrow> [] | Some [] \<Rightarrow> [] | Some (v # _) \<Rightarrow> v)"

definition Header_Set :: "string \<Rightarrow> string \<Rightarrow> header \<Rightarrow> header" where
  "Header_Set k v h = h(k \<mapsto> [v])"

text \<open>
  Of \<^verbatim>\<open>*http.Request\<close> the handlers read the method, the path of the URL, the header
  and the body. \<open>Body_ReadAll\<close> is what \<^verbatim>\<open>ioutil.ReadAll(r.Body)\<close> returns: the
  text of the I/O error on the left, or all the bytes of the body on the right.
\<close>

record request =
  Method :: string
  URL_Path :: string
  Header :: header
  Body_ReadAll :: "string + string"

definition MethodPost :: string where
  "MethodPost = ''POST''"

subsection \<open>The response writer of net/http\<close>

text \<open>
  \<open>rw_header\<close> is the map \<^verbatim>\<open>w.Header()\<close> returns. The first \<^verbatim>\<open>WriteHeader\<close>
  fixes the status code and sends a snapshot of the header map (\<open>rw_sent\<close>); a later
  \<^verbatim>\<open>WriteHeader\<close> is ignored by the server, and later changes of the map do not reach
  the client. \<^verbatim>\<open>Write\<close> first calls \<^verbatim>\<open>WriteHeader(200)\<close> when no header was written,
  then appends its bytes to the body, unless the status sent forbids a body (1xx, 204,
  304), in which case nothing is appended.
\<close>

record responseWriter =
  rw_header :: header
  rw_status :: "nat option"
  rw_sent :: header
  rw_body :: string

definition bodyAllowedForStatus :: "nat \<Rightarrow> bool" where
  "bodyAllowedForStatus status =
     (if 100 \<le> status \<and> status \<le> 199 then False
      else if status = 204 then False
      else if status = 304 then False
      else True)"

definition WriteHeader :: "nat \<Rightarrow> responseWriter \<Rightarrow> responseWriter" where
  "WriteHeader code w =
     (case rw_status w of
        None \<Rightarrow> w\<lparr>rw_status := Some code, rw_sent := rw_header w\<rparr>
      | Some _ \<Rightarrow> w)"

definition Write :: "string \<Rightarrow> responseWriter \<Rightarrow> responseWriter" where
  "Write bs w =
     (let w1 = (case rw_status w of None \<Rightarrow> WriteHeader 200 w | Some _ \<Rightarrow> w) in
      case rw_status w1 of
        None \<Rightarrow> w1
      | Some code \<Rightarrow>
          (if bodyAllowedForStatus code then w1\<lparr>rw_body := rw_body w1 @ bs\<rparr> else w1))"

definition Set_Header :: "string \<Rightarrow> string \<Rightarrow> responseWriter \<Rightarrow> responseWriter" where
  "Set_Header k v w = w\<lparr>rw_header := Header_Set k v (rw_header w)\<rparr>"

text \<open>\<^verbatim>\<open>http.Error(w, error, code)\<close>: two header fields, the status, and the text
  followed by a newline (\<^verbatim>\<open>fmt.Fprintln\<close>).\<close>

definition http_Error :: "string \<Rightarrow> nat \<Rightarrow> responseWriter \<Rightarrow> responseWriter" where
  "http_Error msg code w =
     Write (msg @ newline)
       (WriteHeader code
         (Set_Header ''X-Content-Type-Options'' ''nosniff''
           (Set_Header ''Content-Type'' ''text/plain; charset=utf-8'' w)))"

definition StatusBadRequest :: nat where "StatusBadRequest = 400"
definition StatusUnauthorized :: nat where "StatusUnauthorized = 401"
definition StatusForbidden :: nat where "StatusForbidden = 403"
definition StatusInternalServerError :: nat where "StatusInternalServerError = 500"

text \<open>\<^verbatim>\<open>http.StatusText\<close>, restricted to the codes the handlers pass (200,
  400, 401, 403, 500). For any other code the table below gives the empty string, which
  is the answer of the library only for a code it does not know.\<close>

definition StatusText :: "nat \<Rightarrow> string" where
  "StatusText code =
     (if code = 200 then ''OK''
      else if code = 400 then ''Bad Request''
      else if code = 401 then ''Unauthorized''
      else if code = 403 then ''Forbidden''
      else if code = 500 then ''Internal Server Error''
      else [])"

text \<open>A response writer nothing was written to.\<close>

definition fresh_writer :: responseWriter where
  "fresh_writer = \<lparr>rw_header = Map.empty, rw_status = None, rw_sent = Map.empty, rw_body = []\<rparr>"

subsection \<open>The ohttp library\<close>

text \<open>
  The encapsulation library \<^verbatim>\<open>ohttp-go\<close> is outside the repository. Its values are
  kept as far as the handlers look into them: the key identifier of an encapsulated
  request, and the bytes \<^verbatim>\<open>Marshal\<close> returns for a response and for a key
  configuration. Its functions are parameters: \<^verbatim>\<open>UnmarshalEncapsulatedRequest\<close> is an
  argument of the gateway handler, \<^verbatim>\<open>Config\<close> and \<^verbatim>\<open>DecapsulateRequest\<close> are
  fields of the gateway, and \<^verbatim>\<open>EncapsulateResponse\<close> belongs to the context a
  decapsulation returns. An error of the library is the text of its \<^verbatim>\<open>Error()\<close>.
\<close>

record encapsulatedRequest =
  KeyID :: "8 word"
  kemID :: "16 word"
  kdfID :: "16 word"
  aeadID :: "16 word"
  enc :: string
  ct :: string

text \<open>The zero value \<^verbatim>\<open>ohttp.EncapsulatedRequest{}\<close>.\<close>

definition EncapsulatedRequest_zero :: encapsulatedRequest where
  "EncapsulatedRequest_zero =
     \<lparr>KeyID = 0, kemID = 0, kdfID = 0, aeadID = 0, enc = [], ct = []\<rparr>"

datatype encapsulatedResponse = EncapsulatedResponse (Marshal: string)

datatype publicConfig = PublicConfig (Marshal_config: string)

datatype decapsulateRequestContext =
  DecapsulateRequestContext (EncapsulateResponse: "string \<Rightarrow> string + encapsulatedResponse")

record ohttp_Gateway =
  Config :: "8 word \<Rightarrow> string + publicConfig"
  DecapsulateRequest :: "encapsulatedRequest \<Rightarrow> string + (string \<times> decapsulateRequestContext)"

subsection \<open>Errors of the handlers\<close>

text \<open>
  \<^verbatim>\<open>gateway.go\<close> compares the error of an encapsulation handler with two error values
  of the package, \<^verbatim>\<open>ConfigMismatchError\<close> and \<^verbatim>\<open>GatewayTargetForbiddenError\<close>, by
  \<^verbatim>\<open>==\<close>. Their declarations are not in the source files, so each carries its text
  as an argument; every other error is \<open>OtherError\<close> with its text.
\<close>

datatype gatewayError =
    ConfigMismatchError string
  | GatewayTargetForbiddenError string
  | OtherError string

fun Error_text :: "gatewayError \<Rightarrow> string" where
  "Error_text (ConfigMismatchError t) = t"
| "Error_text (GatewayTargetForbiddenError t) = t"
| "Error_text (OtherError t) = t"

text \<open>\<^verbatim>\<open>part_000\<close> declares \<^verbatim>\<open>TargetForbiddenError = errors.New("Target forbidden")\<close>;
  any other error of a content handler is \<open>ContentError\<close> with its text.\<close>

datatype contentError = TargetForbiddenError | ContentError string

fun contentError_text :: "contentError \<Rightarrow> string" where
  "contentError_text TargetForbiddenError = ''Target forbidden''"
| "contentError_text (ContentError t) = t"

subsection \<open>Metrics, handlers and the world\<close>

text \<open>
  \<^verbatim>\<open>metricsFactory.Create(event)\<close> returns a metrics object for one event category and
  \<^verbatim>\<open>Fire(result)\<close> records one result under it: a fired event is the pair of the
  category and the result.
\<close>

definition metricsEventMarshalRequest :: string where
  "metricsEventMarshalRequest = ''marshal_request''"
definition metricsEventGatewayRequest :: string where
  "metricsEventGatewayRequest = ''gateway_request''"
definition metricsResultInvalidMethod :: string where
  "metricsResultInvalidMethod = ''invalid_method''"
definition metricsResultInvalidContentType :: string where
  "metricsResultInvalidContentType = ''invalid_content_type''"
definition metricsResultInvalidContent :: string where
  "metricsResultInvalidContent = ''invalid_content''"

text \<open>Modelled from the spec: the constants \<^verbatim>\<open>metricsResultRequested\<close> and
  \<^verbatim>\<open>metricsResultSuccess\<close> are declared outside the source files; the spec names the
  second the "success" metric.\<close>

definition metricsResultRequested :: string where
  "metricsResultRequested = ''requested''"
definition metricsResultSuccess :: string where
  "metricsResultSuccess = ''success''"

definition ohttpRequestContentType :: string where
  "ohttpRequestContentType = ''message/ohttp-req''"
definition ohttpResponseContentType :: string where
  "ohttpResponseContentType = ''message/ohttp-res''"
definition twelveHours :: int where
  "twelveHours = 12 * 3600"
definition twentyFourHours :: int where
  "twentyFourHours = 24 * 3600"

text \<open>
  An \<^verbatim>\<open>EncapsulationHandler\<close> is called as \<^verbatim>\<open>Handle(r, encapsulatedReq, metrics)\<close>:
  it returns the results it fires on the metrics object it was given, and an error or
  an encapsulated response. A \<^verbatim>\<open>ContentHandler\<close> of \<^verbatim>\<open>part_000\<close> is called with the
  request, the decapsulated bytes and the target filter.
\<close>

type_synonym EncapsulationHandler =
  "request \<Rightarrow> encapsulatedRequest \<Rightarrow> string list \<times> (gatewayError + encapsulatedResponse)"

type_synonym TargetFilter = "string \<Rightarrow> bool"

type_synonym ContentHandler =
  "request \<Rightarrow> string \<Rightarrow> TargetFilter \<Rightarrow> contentError + string"

datatype handlerCall =
    HandleCall string encapsulatedRequest
  | ContentCall string string

record world =
  resp :: responseWriter
  logged :: "string list"
  fired :: "(string \<times> string) list"
  handled :: "handlerCall list"
  body_closed :: bool

definition on_resp :: "(responseWriter \<Rightarrow> responseWriter) \<Rightarrow> world \<Rightarrow> world" where
  "on_resp f w = w\<lparr>resp := f (resp w)\<rparr>"

definition log_Println :: "string \<Rightarrow> world \<Rightarrow> world" where
  "log_Println line w = w\<lparr>logged := logged w @ [line]\<rparr>"

definition Fire :: "string \<Rightarrow> string \<Rightarrow> world \<Rightarrow> world" where
  "Fire category result w = w\<lparr>fired := fired w @ [(category, result)]\<rparr>"

definition Body_Close :: "world \<Rightarrow> world" where
  "Body_Close w = w\<lparr>body_closed := True\<rparr>"

text \<open>Calling a registered encapsulation handler: the call is recorded, and the results
  the handler fires are recorded under the category of the metrics object.\<close>

definition Handle ::
  "string \<Rightarrow> EncapsulationHandler \<Rightarrow> request \<Rightarrow> encapsulatedRequest \<Rightarrow> string \<Rightarrow> world \<Rightarrow>
     (gatewayError + encapsulatedResponse) \<times> world" where
  "Handle path h r req category w =
     (let (results, out) = h r req in
      (out, w\<lparr>handled := handled w @ [HandleCall path req],
              fired := fired w @ map (\<lambda>res. (category, res)) results\<rparr>))"

text \<open>A world in which nothing has happened yet.\<close>

definition fresh_world :: world where
  "fresh_world =
     \<lparr>resp = fresh_writer, logged = [], fired = [], handled = [], body_closed = False\<rparr>"

subsection \<open>The gateway resource of gateway.go\<close>

text \<open>The two revisions share the fields \<open>verbose\<close>, \<open>keyID\<close> and \<open>gateway\<close>. The
  field \<^verbatim>\<open>metricsFactory\<close> is left out: the events it records are in the world.\<close>

record gatewayFields =
  verbose :: bool
  keyID :: "8 word"
  gateway :: ohttp_Gateway

record gatewayResource = gatewayFields +
  encapsulationHandlers :: "string \<rightharpoonup> EncapsulationHandler"
  debug :: bool

definition httpError :: "gatewayResource \<Rightarrow> nat \<Rightarrow> string \<Rightarrow> world \<Rightarrow> world" where
  "httpError s status debugMessage w =
     (let w1 = (if verbose s then log_Println debugMessage w else w) in
      if debug s then
        on_resp (Write debugMessage) (on_resp (http_Error debugMessage status) w1)
      else
        on_resp (http_Error (StatusText status) status) w1)"

text \<open>\<^verbatim>\<open>hex.EncodeToString\<close> and the verb \<^verbatim>\<open>%x\<close> on bytes: two lower-case
  hexadecimal digits for each byte.\<close>

definition hex_digit :: "nat \<Rightarrow> char" where
  "hex_digit d = ''0123456789abcdef'' ! d"

definition hex_EncodeToString :: "string \<Rightarrow> string" where
  "hex_EncodeToString bs =
     concat (map (\<lambda>c. [hex_digit (of_char c div 16), hex_digit (of_char c mod 16)]) bs)"

text \<open>The line both revisions log on entry: \<^verbatim>\<open>"%s Handling %s\n"\<close>.\<close>

definition handling_line :: "request \<Rightarrow> string" where
  "handling_line r = Method r @ '' Handling '' @ URL_Path r"

definition gatewayHandler ::
  "(string \<Rightarrow> string + encapsulatedRequest) \<Rightarrow> gatewayResource \<Rightarrow> request \<Rightarrow> world \<Rightarrow> world" where
  "gatewayHandler UnmarshalEncapsulatedRequest s r w0 =
     (let w1 = (if verbose s then log_Println (handling_line r) w0 else w0);
          metrics = metricsEventGatewayRequest
      in
      if Method r \<noteq> MethodPost then
        httpError s StatusBadRequest (''Invalid method: '' @ Method r)
          (Fire metrics metricsResultInvalidMethod w1)
      else if Header_Get (Header r) ''Content-Type'' \<noteq> ohttpRequestContentType then
        httpError s StatusBadRequest
          (''Invalid content type: '' @ Header_Get (Header r) ''Content-Type'')
          (Fire metrics metricsResultInvalidContentType w1)
      else
        case encapsulationHandlers s (URL_Path r) of
          None \<Rightarrow> httpError s StatusBadRequest (''Unknown handler for '' @ URL_Path r) w1
        | Some encapHandler \<Rightarrow>
            \<comment> \<open>\<^verbatim>\<open>defer r.Body.Close()\<close>: runs when the handler returns\<close>
            Body_Close
              (case Body_ReadAll r of
                 Inl err \<Rightarrow>
                   httpError s StatusBadRequest (''Reading request body failed: '' @ err)
                     (Fire metrics metricsResultInvalidContent w1)
               | Inr encryptedMessageBytes \<Rightarrow>
                   (let w2 = (if verbose s
                              then log_Println
                                (''Request body: '' @ hex_EncodeToString encryptedMessageBytes) w1
                              else w1)
                    in
                    case UnmarshalEncapsulatedRequest encryptedMessageBytes of
                      Inl err \<Rightarrow>
                        httpError s StatusBadRequest ''Reading request body failed''
                          (Fire metrics metricsResultInvalidContent w2)
                    | Inr encapsulatedReq \<Rightarrow>
                        (let (res, w3) =
                               Handle (URL_Path r) encapHandler r encapsulatedReq metrics w2
                         in
                         case res of
                           Inl err \<Rightarrow>
                             (let w4 = (if verbose s then log_Println (Error_text err) w3 else w3)
                              in
                              case err of
                                ConfigMismatchError _ \<Rightarrow>
                                  on_resp (http_Error (StatusText StatusUnauthorized)
                                    StatusUnauthorized) w4
                              | GatewayTargetForbiddenError _ \<Rightarrow>
                                  on_resp (http_Error (StatusText StatusForbidden)
                                    StatusForbidden) w4
                              | OtherError _ \<Rightarrow>
                                  on_resp (http_Error (StatusText StatusBadRequest)
                                    StatusBadRequest) w4)
                         | Inr encapsulatedResp \<Rightarrow>
                             (let packedResponse = Marshal encapsulatedResp;
                                  w5 = on_resp (Set_Header ''Content-Type''
                                         ohttpResponseContentType) w3;
                                  w6 = on_resp (Set_Header ''Connection'' ''Keep-Alive'') w5
                              in on_resp (Write packedResponse) w6)))))"

definition marshalHandler :: "gatewayResource \<Rightarrow> request \<Rightarrow> world \<Rightarrow> world" where
  "marshalHandler s r w0 =
     (let w1 = (if \<not> debug s
                then httpError s StatusForbidden ''Forbidden. Allowed in debug mode only.'' w0
                else w0);
          w2 = (if verbose s then log_Println (handling_line r) w1 else w1);
          metrics = metricsEventMarshalRequest;
          w3 = Fire metrics metricsResultRequested w2
      in
      if Method r \<noteq> MethodPost then
        httpError s StatusBadRequest (''Invalid method: '' @ Method r) w3
      else
        case encapsulationHandlers s (URL_Path r) of
          None \<Rightarrow> httpError s StatusBadRequest (''Unknown handler for '' @ URL_Path r) w3
        | Some encapHandler \<Rightarrow>
            (let (res, w4) =
                   Handle (URL_Path r) encapHandler r EncapsulatedRequest_zero metrics w3
             in
             case res of
               Inl err \<Rightarrow>
                 httpError s StatusBadRequest (''Encapsulation failed: '' @ Error_text err) w4
             | Inr packedRequest \<Rightarrow>
                 (let w5 = httpError s StatusInternalServerError ''Config unavailable'' w4;
                      w6 = on_resp (http_Error (StatusText StatusInternalServerError)
                             StatusInternalServerError) w5;
                      content = Marshal packedRequest;
                      w7 = on_resp (Set_Header ''Content-Type'' ohttpResponseContentType) w6;
                      w8 = on_resp (Set_Header ''Content-Length''
                             (Itoa (int (length content)))) w7;
                      w9 = on_resp (Write content) w8
                  in Fire metrics metricsResultSuccess w9)))"

text \<open>
  \<^verbatim>\<open>rand.Intn(n)\<close> returns a number of the half-open interval from 0 to \<open>n\<close> for a
  positive \<open>n\<close>: the sample the generator draws, reduced modulo \<open>n\<close>. The sample is an
  argument of the handler, since the generator is seeded from the clock at each request.
\<close>

definition rand_Intn :: "nat \<Rightarrow> int \<Rightarrow> int" where
  "rand_Intn sample n = int sample mod n"

definition configHandler :: "nat \<Rightarrow> gatewayResource \<Rightarrow> request \<Rightarrow> world \<Rightarrow> world" where
  "configHandler sample s r w0 =
     (let w1 = (if verbose s then log_Println (handling_line r) w0 else w0) in
      case Config (gateway s) (keyID s) of
        Inl err \<Rightarrow>
          on_resp (http_Error (StatusText StatusInternalServerError) StatusInternalServerError)
            (log_Println ''Config unavailable'' w1)
      | Inr config \<Rightarrow>
          (let maxAge = twelveHours + rand_Intn sample twentyFourHours;
               w2 = on_resp (Set_Header ''Cache-Control''
                      (''max-age='' @ Itoa maxAge @ '', private'')) w1
           in on_resp (Write (Marshal_config config)) w2))"

subsection \<open>The gateway resource of part_000\<close>

text \<open>\<open>allowedOrigins\<close> is a Go map that may be \<^verbatim>\<open>nil\<close>: \<open>None\<close> is the nil map,
  \<open>Some m\<close> a map that was made, empty or not.\<close>

record gatewayResource0 = gatewayFields +
  handlers :: "string \<rightharpoonup> ContentHandler"
  allowedOrigins :: "(string \<rightharpoonup> bool) option"

definition parseEncapsulatedRequestFromContent ::
  "(string \<Rightarrow> string + encapsulatedRequest) \<Rightarrow> gatewayResource0 \<Rightarrow> request \<Rightarrow> world \<Rightarrow>
     (string + encapsulatedRequest) \<times> world" where
  "parseEncapsulatedRequestFromContent UnmarshalEncapsulatedRequest s r w =
     (if Method r \<noteq> MethodPost then
        (Inl (''Unsupported HTTP method for Oblivious DNS query: '' @ Method r), w)
      else
        \<comment> \<open>\<^verbatim>\<open>defer r.Body.Close()\<close>\<close>
        (case Body_ReadAll r of
           Inl err \<Rightarrow> (Inl err, Body_Close w)
         | Inr encryptedMessageBytes \<Rightarrow>
             (UnmarshalEncapsulatedRequest encryptedMessageBytes, Body_Close w)))"

definition checkAllowList :: "gatewayResource0 \<Rightarrow> string \<Rightarrow> bool" where
  "checkAllowList s targetOrigin =
     (case allowedOrigins s of
        Some m \<Rightarrow> (case m targetOrigin of Some _ \<Rightarrow> True | None \<Rightarrow> False)
      | None \<Rightarrow> True)"

text \<open>\<^verbatim>\<open>http.Error\<close> with a text that is also logged, as \<^verbatim>\<open>part_000\<close> does on most
  of its failures.\<close>

definition log_and_Error :: "string \<Rightarrow> nat \<Rightarrow> world \<Rightarrow> world" where
  "log_and_Error statusText code w = on_resp (http_Error statusText code) (log_Println statusText w)"

definition gatewayHandler0 ::
  "(string \<Rightarrow> string + encapsulatedRequest) \<Rightarrow> gatewayResource0 \<Rightarrow> request \<Rightarrow> world \<Rightarrow> world" where
  "gatewayHandler0 UnmarshalEncapsulatedRequest s r w0 =
     (let w1 = (if verbose s then log_Println (handling_line r) w0 else w0) in
      if Header_Get (Header r) ''Content-Type'' \<noteq> ohttpRequestContentType then
        log_and_Error (''Invalid content type: '' @ Header_Get (Header r) ''Content-Type'')
          StatusBadRequest w1
      else
        (let (parsed, w2) =
               parseEncapsulatedRequestFromContent UnmarshalEncapsulatedRequest s r w1
         in
         case parsed of
           Inl err \<Rightarrow>
             log_and_Error (''parseEncapsulatedRequestFromContent failed: '' @ err)
               StatusBadRequest w2
         | Inr encapsulatedRequest \<Rightarrow>
             if KeyID encapsulatedRequest \<noteq> keyID s then
               on_resp (http_Error (StatusText StatusUnauthorized) StatusUnauthorized)
                 (log_Println ''Invalid request key'' w2)
             else
               (case DecapsulateRequest (gateway s) encapsulatedRequest of
                 Inl err \<Rightarrow>
                   log_and_Error (''DecapsulateRequest failed: '' @ err) StatusBadRequest w2
               | Inr (binaryRequest, context) \<Rightarrow>
                   (case handlers s (URL_Path r) of
                      None \<Rightarrow>
                        log_and_Error (''Unknown handler for '' @ URL_Path r) StatusBadRequest w2
                    | Some handler \<Rightarrow>
                        (let w3 = w2\<lparr>handled := handled w2 @
                                      [ContentCall (URL_Path r) binaryRequest]\<rparr>
                         in
                         case handler r binaryRequest (checkAllowList s) of
                           Inl err \<Rightarrow>
                             (case err of
                                TargetForbiddenError \<Rightarrow>
                                  on_resp (http_Error (StatusText StatusForbidden)
                                    StatusForbidden)
                                    (log_Println (''Target forbidden: '' @
                                       contentError_text err) w3)
                              | ContentError _ \<Rightarrow>
                                  log_and_Error (''Content handler failed: '' @
                                    contentError_text err) StatusBadRequest w3)
                         | Inr binaryResponse \<Rightarrow>
                             (case EncapsulateResponse context binaryResponse of
                                Inl err \<Rightarrow>
                                  log_and_Error (''EncapsulateResponse failed: '' @ err)
                                    StatusBadRequest w3
                              | Inr encapsulatedResponse \<Rightarrow>
                                  (let packedResponse = Marshal encapsulatedResponse;
                                       w4 = (if verbose s
                                             then log_Println (''Target response: '' @
                                               hex_EncodeToString packedResponse) w3
                                             else w3);
                                       w5 = on_resp (Set_Header ''Content-Type''
                                              ohttpResponseContentType) w4
                                   in on_resp (Write packedResponse) w5)))))))"

definition configHandler0 :: "gatewayResource0 \<Rightarrow> request \<Rightarrow> world \<Rightarrow> world" where
  "configHandler0 s r w0 =
     (let w1 = log_Println (handling_line r) w0 in
      case Config (gateway s) (keyID s) of
        Inl err \<Rightarrow>
          on_resp (http_Error (StatusText StatusInternalServerError) StatusInternalServerError)
            (log_Println ''Config unavailable'' w1)
      | Inr config \<Rightarrow> on_resp (Write (Marshal_config config)) w1)"

subsection \<open>The server around a handler\<close>



subsection \<open>Example values\<close>

text \<open>
  Concrete collaborators on which the theorems below are evaluated. The example parser
  fails on an empty body and otherwise takes the first byte as the key identifier and the
  rest as the ciphertext; the example gateway knows key 1 and decapsulates to the
  ciphertext itself; the example encapsulation handler constructs a message for the zero
  request, reports a key mismatch for a key other than 1, refuses the ciphertext
  \<open>forbidden\<close>, fails on an empty ciphertext and otherwise answers with the ciphertext;
  the example content handler takes the decapsulated bytes as the target origin.
\<close>

definition example_Unmarshal :: "string \<Rightarrow> string + encapsulatedRequest" where
  "example_Unmarshal bs =
     (case bs of
        [] \<Rightarrow> Inl ''unexpected EOF''
      | b # rest \<Rightarrow>
          Inr \<lparr>KeyID = of_nat (of_char b), kemID = 0, kdfID = 0, aeadID = 0,
               enc = [], ct = rest\<rparr>)"

definition example_gateway :: ohttp_Gateway where
  "example_gateway =
     \<lparr>Config = (\<lambda>k. if k = 1 then Inr (PublicConfig ''key-config'') else Inl ''unknown key''),
      DecapsulateRequest =
        (\<lambda>req. Inr (ct req, DecapsulateRequestContext (\<lambda>b. Inr (EncapsulatedResponse b))))\<rparr>"

definition example_handler :: EncapsulationHandler where
  "example_handler r req =
     (if req = EncapsulatedRequest_zero then
        ([''success''], Inr (EncapsulatedResponse ''packed''))
      else if KeyID req \<noteq> 1 then
        ([''config_mismatch''], Inl (ConfigMismatchError ''config mismatch''))
      else if ct req = ''forbidden'' then
        ([''target_forbidden''], Inl (GatewayTargetForbiddenError ''target forbidden''))
      else if ct req = [] then
        ([''decapsulation_failed''], Inl (OtherError ''decapsulation failed''))
      else
        ([''success''], Inr (EncapsulatedResponse (ct req))))"

definition example_resource :: "bool \<Rightarrow> gatewayResource" where
  "example_resource dbg =
     \<lparr>verbose = False, keyID = 1, gateway = example_gateway,
      encapsulationHandlers = [''/gateway'' \<mapsto> example_handler], debug = dbg\<rparr>"

definition example_content_handler :: ContentHandler where
  "example_content_handler r binaryRequest targetFilter =
     (if binaryRequest = [] then Inl (ContentError ''empty request'')
      else if targetFilter binaryRequest then Inr binaryRequest
      else Inl TargetForbiddenError)"

definition example_resource0 :: gatewayResource0 where
  "example_resource0 =
     \<lparr>verbose = False, keyID = 1, gateway = example_gateway,
      handlers = [''/gateway'' \<mapsto> example_content_handler],
      allowedOrigins = Some [''example.com'' \<mapsto> True]\<rparr>"

definition example_request :: "string \<Rightarrow> string \<Rightarrow> request" where
  "example_request method body =
     \<lparr>Method = method, URL_Path = ''/gateway'',
      Header = [''Content-Type'' \<mapsto> [''message/ohttp-req'']],
      Body_ReadAll = Inr body\<rparr>"

section \<open>Properties\<close>

subsection \<open>What each operation does to the response and to the world\<close>

lemma WriteHeader_status:
  "rw_status (WriteHeader code w) = Some (case rw_status w of None \<Rightarrow> code | Some c \<Rightarrow> c)"
  by (simp add: WriteHeader_def split: option.splits)

lemma WriteHeader_body: "rw_body (WriteHeader code w) = rw_body w"
  by (simp add: WriteHeader_def split: option.splits)

lemma Write_status:
  "rw_status (Write bs w) = Some (case rw_status w of None \<Rightarrow> 200 | Some c \<Rightarrow> c)"
  by (simp add: Write_def WriteHeader_def Let_def split: option.splits)

lemma Write_body:
  "rw_body (Write bs w) =
     (if bodyAllowedForStatus (case rw_status w of None \<Rightarrow> 200 | Some c \<Rightarrow> c)
      then rw_body w @ bs else rw_body w)"
  by (simp add: Write_def WriteHeader_def Let_def split: option.splits)

lemma Set_Header_status: "rw_status (Set_Header k v w) = rw_status w"
  by (simp add: Set_Header_def)

lemma Set_Header_body: "rw_body (Set_Header k v w) = rw_body w"
  by (simp add: Set_Header_def)

lemma http_Error_status:
  "rw_status (http_Error msg code w) = Some (case rw_status w of None \<Rightarrow> code | Some c \<Rightarrow> c)"
  by (simp add: http_Error_def Write_status WriteHeader_status Set_Header_status split: option.splits)

lemma http_Error_body:
  "rw_body (http_Error msg code w) =
     (if bodyAllowedForStatus (case rw_status w of None \<Rightarrow> code | Some c \<Rightarrow> c)
      then rw_body w @ msg @ newline else rw_body w)"
  by (simp add: http_Error_def Write_body WriteHeader_status WriteHeader_body
      Set_Header_status Set_Header_body split: option.splits)

lemmas writer_simps = WriteHeader_status WriteHeader_body Write_status Write_body
  Set_Header_status Set_Header_body http_Error_status http_Error_body

lemma on_resp_simps:
  "resp (on_resp f w) = f (resp w)"
  "logged (on_resp f w) = logged w"
  "fired (on_resp f w) = fired w"
  "handled (on_resp f w) = handled w"
  "body_closed (on_resp f w) = body_closed w"
  by (simp_all add: on_resp_def)

lemma log_Println_simps:
  "resp (log_Println l w) = resp w"
  "logged (log_Println l w) = logged w @ [l]"
  "fired (log_Println l w) = fired w"
  "handled (log_Println l w) = handled w"
  "body_closed (log_Println l w) = body_closed w"
  by (simp_all add: log_Println_def)

lemma Fire_simps:
  "resp (Fire c e w) = resp w"
  "logged (Fire c e w) = logged w"
  "fired (Fire c e w) = fired w @ [(c, e)]"
  "handled (Fire c e w) = handled w"
  "body_closed (Fire c e w) = body_closed w"
  by (simp_all add: Fire_def)

lemma Body_Close_simps:
  "resp (Body_Close w) = resp w"
  "logged (Body_Close w) = logged w"
  "fired (Body_Close w) = fired w"
  "handled (Body_Close w) = handled w"
  "body_closed (Body_Close w) = True"
  by (simp_all add: Body_Close_def)

lemma httpError_simps:
  "rw_status (resp (httpError s status m w)) =
     Some (case rw_status (resp w) of None \<Rightarrow> status | Some c \<Rightarrow> c)"
  "fired (httpError s status m w) = fired w"
  "handled (httpError s status m w) = handled w"
  "body_closed (httpError s status m w) = body_closed w"
  by (simp_all add: httpError_def Let_def on_resp_simps log_Println_simps writer_simps
      split: option.splits)

lemma httpError_body:
  "rw_body (resp (httpError s status m w)) =
     (if bodyAllowedForStatus (case rw_status (resp w) of None \<Rightarrow> status | Some c \<Rightarrow> c)
      then rw_body (resp w) @
        (if debug s then m @ newline @ m else StatusText status @ newline)
      else rw_body (resp w))"
  by (simp add: httpError_def Let_def on_resp_simps log_Println_simps writer_simps
      split: option.splits)

lemma Handle_simps:
  "fst (Handle path h r req cat w) = snd (h r req)"
  "resp (snd (Handle path h r req cat w)) = resp w"
  "logged (snd (Handle path h r req cat w)) = logged w"
  "fired (snd (Handle path h r req cat w)) = fired w @ map (\<lambda>res. (cat, res)) (fst (h r req))"
  "handled (snd (Handle path h r req cat w)) = handled w @ [HandleCall path req]"
  "body_closed (snd (Handle path h r req cat w)) = body_closed w"
  by (simp_all add: Handle_def Let_def split: prod.splits)

lemmas world_simps = on_resp_simps log_Println_simps Fire_simps Body_Close_simps
  httpError_simps Handle_simps

lemma parse_simps:
  "resp (snd (parseEncapsulatedRequestFromContent u s r w)) = resp w"
  "logged (snd (parseEncapsulatedRequestFromContent u s r w)) = logged w"
  "fired (snd (parseEncapsulatedRequestFromContent u s r w)) = fired w"
  "handled (snd (parseEncapsulatedRequestFromContent u s r w)) = handled w"
  "body_closed (snd (parseEncapsulatedRequestFromContent u s r w)) =
     (body_closed w \<or> Method r = MethodPost)"
  by (simp_all add: parseEncapsulatedRequestFromContent_def Body_Close_simps split: sum.splits)

lemma log_and_Error_simps:
  "rw_status (resp (log_and_Error t code w)) =
     Some (case rw_status (resp w) of None \<Rightarrow> code | Some c \<Rightarrow> c)"
  "fired (log_and_Error t code w) = fired w"
  "handled (log_and_Error t code w) = handled w"
  "body_closed (log_and_Error t code w) = body_closed w"
  by (simp_all add: log_and_Error_def on_resp_simps log_Println_simps writer_simps)

lemma parse_not_POST:
  "Method r \<noteq> MethodPost \<Longrightarrow>
   fst (parseEncapsulatedRequestFromContent u s r w) =
     Inl (''Unsupported HTTP method for Oblivious DNS query: '' @ Method r)"
  by (simp add: parseEncapsulatedRequestFromContent_def)

lemma parse_POST:
  "Method r = MethodPost \<Longrightarrow>
   fst (parseEncapsulatedRequestFromContent u s r w) =
     (case Body_ReadAll r of Inl err \<Rightarrow> Inl err | Inr bs \<Rightarrow> u bs)"
  by (simp add: parseEncapsulatedRequestFromContent_def split: sum.splits)

subsection \<open>Requests that are not POST\<close>

text \<open>
  Claim C2. A request whose method is not POST is answered with status 400 by the
  gateway handler (on a response nothing was written to), no registered handler is
  called, and the only metric event fired is \<open>invalid_method\<close> under the category
  \<open>gateway_request\<close>. The handler of \<^verbatim>\<open>part_000\<close>, which has no metrics, answers 400
  as well, calls no content handler and fires nothing.
\<close>

theorem non_POST_rejected:
  assumes "Method r \<noteq> MethodPost" and "rw_status (resp w) = None"
  shows "rw_status (resp (gatewayHandler unmarshal s r w)) = Some 400 \<and>
         handled (gatewayHandler unmarshal s r w) = handled w \<and>
         fired (gatewayHandler unmarshal s r w) =
           fired w @ [(''gateway_request'', ''invalid_method'')] \<and>
         rw_status (resp (gatewayHandler0 unmarshal s' r w)) = Some 400 \<and>
         handled (gatewayHandler0 unmarshal s' r w) = handled w \<and>
         fired (gatewayHandler0 unmarshal s' r w) = fired w"
  using assms
  by (simp add: gatewayHandler_def gatewayHandler0_def Let_def case_prod_beta world_simps
      parse_simps log_and_Error_simps parse_not_POST StatusBadRequest_def
      metricsEventGatewayRequest_def metricsResultInvalidMethod_def)

theorem non_POST_rejected_witness:
  "Method (example_request ''GET'' []) \<noteq> MethodPost \<and>
   rw_status (resp fresh_world) = None \<and>
   rw_status (resp (gatewayHandler example_Unmarshal (example_resource False)
     (example_request ''GET'' []) fresh_world)) = Some 400 \<and>
   handled (gatewayHandler example_Unmarshal (example_resource False)
     (example_request ''GET'' []) fresh_world) = [] \<and>
   fired (gatewayHandler example_Unmarshal (example_resource False)
     (example_request ''GET'' []) fresh_world) = [(''gateway_request'', ''invalid_method'')] \<and>
   rw_status (resp (gatewayHandler0 example_Unmarshal example_resource0
     (example_request ''GET'' []) fresh_world)) = Some 400 \<and>
   handled (gatewayHandler0 example_Unmarshal example_resource0
     (example_request ''GET'' []) fresh_world) = [] \<and>
   fired (gatewayHandler0 example_Unmarshal example_resource0
     (example_request ''GET'' []) fresh_world) = []"
proof -
  have h1: "Method (example_request ''GET'' []) \<noteq> MethodPost"
    by (simp add: example_request_def MethodPost_def)
  have h2: "rw_status (resp fresh_world) = None"
    by (simp add: fresh_world_def fresh_writer_def)
  have h3: "handled fresh_world = []" "fired fresh_world = []"
    by (simp_all add: fresh_world_def)
  from non_POST_rejected [OF h1 h2, of example_Unmarshal "example_resource False" example_resource0]
  show ?thesis using h1 h2 h3 by simp
qed

subsection \<open>Closing the request body\<close>





subsection \<open>Handler failures and their status\<close>

lemma gatewayHandler_dispatch_failure:
  assumes "Method r = MethodPost"
    and "Header_Get (Header r) ''Content-Type'' = ohttpRequestContentType"
    and "Body_ReadAll r = Inr bs"
    and "unmarshal bs = Inr req"
    and "encapsulationHandlers s (URL_Path r) = Some h"
    and "snd (h r req) = Inl err"
  shows "rw_status (resp (gatewayHandler unmarshal s r w)) =
           Some (case rw_status (resp w) of
                   None \<Rightarrow> (case err of
                       ConfigMismatchError _ \<Rightarrow> 401
                     | GatewayTargetForbiddenError _ \<Rightarrow> 403
                     | OtherError _ \<Rightarrow> 400)
                 | Some c \<Rightarrow> c)"
  using assms
  by (simp add: gatewayHandler_def Let_def case_prod_beta world_simps writer_simps
      StatusUnauthorized_def StatusForbidden_def StatusBadRequest_def
      split: gatewayError.splits option.splits)

lemma gatewayHandler0_dispatch_failure:
  assumes "Method r = MethodPost"
    and "Header_Get (Header r) ''Content-Type'' = ohttpRequestContentType"
    and "Body_ReadAll r = Inr bs"
    and "unmarshal bs = Inr req"
    and "KeyID req = keyID s'"
    and "DecapsulateRequest (gateway s') req = Inr (binaryRequest, ctx)"
    and "handlers s' (URL_Path r) = Some handler"
    and "handler r binaryRequest (checkAllowList s') = Inl err'"
  shows "rw_status (resp (gatewayHandler0 unmarshal s' r w)) =
           Some (case rw_status (resp w) of
                   None \<Rightarrow> (case err' of TargetForbiddenError \<Rightarrow> 403 | ContentError _ \<Rightarrow> 400)
                 | Some c \<Rightarrow> c)"
  using assms
  by (simp add: gatewayHandler0_def Let_def case_prod_beta world_simps writer_simps
      parse_simps parse_POST log_and_Error_simps
      StatusUnauthorized_def StatusForbidden_def StatusBadRequest_def
      split: contentError.splits option.splits)

text \<open>
  Claim C1. For a request that reaches the dispatch to its handler (POST, the OHTTP
  content type, a body that was read and parsed, a handler registered for the path) on a
  response nothing was written to, a failure of the handler gives status 401 for
  \<open>ConfigMismatchError\<close>, 403 for \<open>GatewayTargetForbiddenError\<close> and 400 for every other
  error. In \<^verbatim>\<open>part_000\<close>, where the key is checked before the dispatch, a failure of
  the content handler gives 403 for \<open>TargetForbiddenError\<close> and 400 for every other error.
\<close>

theorem handler_failure_status:
  assumes "Method r = MethodPost"
    and "Header_Get (Header r) ''Content-Type'' = ohttpRequestContentType"
    and "Body_ReadAll r = Inr bs"
    and "unmarshal bs = Inr req"
    and "rw_status (resp w) = None"
  shows "(encapsulationHandlers s (URL_Path r) = Some h \<and> h r req = (results, Inl err) \<longrightarrow>
           rw_status (resp (gatewayHandler unmarshal s r w)) =
             Some (case err of
                     ConfigMismatchError _ \<Rightarrow> 401
                   | GatewayTargetForbiddenError _ \<Rightarrow> 403
                   | OtherError _ \<Rightarrow> 400)) \<and>
         (KeyID req = keyID s' \<and>
          DecapsulateRequest (gateway s') req = Inr (binaryRequest, ctx) \<and>
          handlers s' (URL_Path r) = Some handler \<and>
          handler r binaryRequest (checkAllowList s') = Inl err' \<longrightarrow>
           rw_status (resp (gatewayHandler0 unmarshal s' r w)) =
             Some (case err' of TargetForbiddenError \<Rightarrow> 403 | ContentError _ \<Rightarrow> 400))"
  using assms
  by (auto simp add: gatewayHandler_dispatch_failure gatewayHandler0_dispatch_failure)

theorem handler_failure_status_witness:
  "Method (example_request ''POST'' (CHR 0x01 # ''forbidden'')) = MethodPost \<and>
   Header_Get (Header (example_request ''POST'' (CHR 0x01 # ''forbidden''))) ''Content-Type'' =
     ohttpRequestContentType \<and>
   Body_ReadAll (example_request ''POST'' (CHR 0x01 # ''forbidden'')) =
     Inr (CHR 0x01 # ''forbidden'') \<and>
   rw_status (resp fresh_world) = None \<and>
   rw_status (resp (gatewayHandler example_Unmarshal (example_resource False)
     (example_request ''POST'' (CHR 0x01 # ''forbidden'')) fresh_world)) = Some 403 \<and>
   rw_status (resp (gatewayHandler0 example_Unmarshal example_resource0
     (example_request ''POST'' (CHR 0x01 # ''forbidden'')) fresh_world)) = Some 403"
proof -
  let ?r = "example_request ''POST'' (CHR 0x01 # ''forbidden'')"
  let ?req = "\<lparr>KeyID = 1, kemID = 0, kdfID = 0, aeadID = 0, enc = [], ct = ''forbidden''\<rparr>"
  have h1: "Method ?r = MethodPost"
    by (simp add: example_request_def MethodPost_def)
  have h2: "Header_Get (Header ?r) ''Content-Type'' = ohttpRequestContentType"
    by (simp add: example_request_def Header_Get_def ohttpRequestContentType_def)
  have h3: "Body_ReadAll ?r = Inr (CHR 0x01 # ''forbidden'')"
    by (simp add: example_request_def)
  have h4: "example_Unmarshal (CHR 0x01 # ''forbidden'') = Inr ?req"
    by (simp add: example_Unmarshal_def)
  have h5: "rw_status (resp fresh_world) = None"
    by (simp add: fresh_world_def fresh_writer_def)
  have g1: "encapsulationHandlers (example_resource False) (URL_Path ?r) = Some example_handler \<and>
            example_handler ?r ?req =
              ([''target_forbidden''], Inl (GatewayTargetForbiddenError ''target forbidden''))"
    by (simp add: example_resource_def example_request_def example_handler_def
        EncapsulatedRequest_zero_def)
  have g2: "KeyID ?req = keyID example_resource0 \<and>
            DecapsulateRequest (gateway example_resource0) ?req =
              Inr (''forbidden'', DecapsulateRequestContext (\<lambda>b. Inr (EncapsulatedResponse b))) \<and>
            handlers example_resource0 (URL_Path ?r) = Some example_content_handler \<and>
            example_content_handler ?r ''forbidden'' (checkAllowList example_resource0) =
              Inl TargetForbiddenError"
    by (simp add: example_resource0_def example_gateway_def example_request_def
        example_content_handler_def checkAllowList_def)
  from handler_failure_status [where unmarshal = example_Unmarshal and r = ?r
      and bs = "CHR 0x01 # ''forbidden''" and req = ?req and w = fresh_world
      and s = "example_resource False" and h = example_handler
      and results = "[''target_forbidden'']"
      and err = "GatewayTargetForbiddenError ''target forbidden''"
      and s' = example_resource0 and binaryRequest = "''forbidden''"
      and ctx = "DecapsulateRequestContext (\<lambda>b. Inr (EncapsulatedResponse b))"
      and handler = example_content_handler and err' = TargetForbiddenError,
      OF h1 h2 h3 h4 h5] g1 g2
  show ?thesis using h1 h2 h3 h5 by simp
qed

subsection \<open>Bodies that do not parse\<close>

lemma gatewayHandler_parse_failure:
  assumes "Method r = MethodPost"
    and "Header_Get (Header r) ''Content-Type'' = ohttpRequestContentType"
    and "Body_ReadAll r = Inr bs"
    and "unmarshal bs = Inl err"
    and "encapsulationHandlers s (URL_Path r) = Some h"
    and "rw_status (resp w) = None"
  shows "rw_status (resp (gatewayHandler unmarshal s r w)) = Some 400"
    and "fired (gatewayHandler unmarshal s r w) =
           fired w @ [(''gateway_request'', ''invalid_content'')]"
    and "handled (gatewayHandler unmarshal s r w) = handled w"
    and "rw_body (resp (gatewayHandler unmarshal s r w)) =
           rw_body (resp w) @
           (if debug s
            then ''Reading request body failed'' @ newline @ ''Reading request body failed''
            else ''Bad Request'' @ newline)"
  using assms
  by (simp_all add: gatewayHandler_def Let_def world_simps httpError_body
      StatusBadRequest_def StatusText_def bodyAllowedForStatus_def
      metricsEventGatewayRequest_def metricsResultInvalidContent_def)

lemma gatewayHandler0_parse_failure:
  assumes "Method r = MethodPost"
    and "Header_Get (Header r) ''Content-Type'' = ohttpRequestContentType"
    and "Body_ReadAll r = Inr bs"
    and "unmarshal bs = Inl err"
    and "rw_status (resp w) = None"
  shows "rw_status (resp (gatewayHandler0 unmarshal s' r w)) = Some 400"
    and "fired (gatewayHandler0 unmarshal s' r w) = fired w"
    and "handled (gatewayHandler0 unmarshal s' r w) = handled w"
    and "rw_body (resp (gatewayHandler0 unmarshal s' r w)) =
           rw_body (resp w) @ ''parseEncapsulatedRequestFromContent failed: '' @ err @ newline"
  using assms
  by (simp_all add: gatewayHandler0_def Let_def case_prod_beta world_simps parse_simps
      parse_POST log_and_Error_simps log_and_Error_def writer_simps
      StatusBadRequest_def bodyAllowedForStatus_def)

text \<open>
  Claim C4, refuted as stated. In \<^verbatim>\<open>part_000\<close> the handler answers a body that does
  not parse with the text of the parser's error: on an empty body, where the example
  parser fails with \<open>unexpected EOF\<close>, the response body ends in that text, and no
  metric is fired.
\<close>

theorem parse_failure_detail_echoed:
  "example_Unmarshal [] = Inl ''unexpected EOF'' \<and>
   rw_body (resp (gatewayHandler0 example_Unmarshal example_resource0
     (example_request ''POST'' []) fresh_world)) =
     ''parseEncapsulatedRequestFromContent failed: unexpected EOF'' @ newline \<and>
   fired (gatewayHandler0 example_Unmarshal example_resource0
     (example_request ''POST'' []) fresh_world) = []"
proof -
  let ?r = "example_request ''POST'' []"
  have h1: "Method ?r = MethodPost"
    by (simp add: example_request_def MethodPost_def)
  have h2: "Header_Get (Header ?r) ''Content-Type'' = ohttpRequestContentType"
    by (simp add: example_request_def Header_Get_def ohttpRequestContentType_def)
  have h3: "Body_ReadAll ?r = Inr []"
    by (simp add: example_request_def)
  have h4: "example_Unmarshal [] = Inl ''unexpected EOF''"
    by (simp add: example_Unmarshal_def)
  have h5: "rw_status (resp fresh_world) = None"
    by (simp add: fresh_world_def fresh_writer_def)
  have h6: "rw_body (resp fresh_world) = []" "fired fresh_world = []"
    by (simp_all add: fresh_world_def fresh_writer_def)
  from gatewayHandler0_parse_failure(2,4) [where unmarshal = example_Unmarshal and r = ?r
      and bs = "[]" and err = "''unexpected EOF''" and w = fresh_world
      and s' = example_resource0, OF h1 h2 h3 h4 h5] h4 h6
  show ?thesis by simp
qed

text \<open>
  Claim C4, amended. For a POST request with the OHTTP content type whose body was read
  and does not parse, on a response nothing was written to: the handler of
  \<^verbatim>\<open>gateway.go\<close> (given a handler registered for the path) answers 400, fires
  \<open>invalid_content\<close> under \<open>gateway_request\<close>, and its message does not depend on the
  parser's error: the fixed text \<open>Reading request body failed\<close>, written twice, in debug
  mode and the status text otherwise. The handler of \<^verbatim>\<open>part_000\<close> answers 400, fires
  nothing, and its message is \<open>parseEncapsulatedRequestFromContent failed: \<close> followed
  by the parser's error.
\<close>

theorem parse_failure_response:
  assumes "Method r = MethodPost"
    and "Header_Get (Header r) ''Content-Type'' = ohttpRequestContentType"
    and "Body_ReadAll r = Inr bs"
    and "unmarshal bs = Inl err"
    and "rw_status (resp w) = None"
  shows "(encapsulationHandlers s (URL_Path r) = Some h \<longrightarrow>
           rw_status (resp (gatewayHandler unmarshal s r w)) = Some 400 \<and>
           fired (gatewayHandler unmarshal s r w) =
             fired w @ [(''gateway_request'', ''invalid_content'')] \<and>
           rw_body (resp (gatewayHandler unmarshal s r w)) =
             rw_body (resp w) @
             (if debug s
              then ''Reading request body failed'' @ newline @ ''Reading request body failed''
              else ''Bad Request'' @ newline)) \<and>
         rw_status (resp (gatewayHandler0 unmarshal s' r w)) = Some 400 \<and>
         fired (gatewayHandler0 unmarshal s' r w) = fired w \<and>
         rw_body (resp (gatewayHandler0 unmarshal s' r w)) =
           rw_body (resp w) @ ''parseEncapsulatedRequestFromContent failed: '' @ err @ newline"
  using assms
  by (simp add: gatewayHandler_parse_failure gatewayHandler0_parse_failure)

theorem parse_failure_response_witness:
  "Method (example_request ''POST'' []) = MethodPost \<and>
   Header_Get (Header (example_request ''POST'' [])) ''Content-Type'' = ohttpRequestContentType \<and>
   Body_ReadAll (example_request ''POST'' []) = Inr [] \<and>
   example_Unmarshal [] = Inl ''unexpected EOF'' \<and>
   rw_status (resp fresh_world) = None \<and>
   encapsulationHandlers (example_resource False) (URL_Path (example_request ''POST'' [])) =
     Some example_handler \<and>
   rw_status (resp (gatewayHandler example_Unmarshal (example_resource False)
     (example_request ''POST'' []) fresh_world)) = Some 400 \<and>
   fired (gatewayHandler example_Unmarshal (example_resource False)
     (example_request ''POST'' []) fresh_world) = [(''gateway_request'', ''invalid_content'')] \<and>
   rw_body (resp (gatewayHandler example_Unmarshal (example_resource False)
     (example_request ''POST'' []) fresh_world)) = ''Bad Request'' @ newline \<and>
   rw_status (resp (gatewayHandler0 example_Unmarshal example_resource0
     (example_request ''POST'' []) fresh_world)) = Some 400"
proof -
  let ?r = "example_request ''POST'' []"
  have h1: "Method ?r = MethodPost"
    by (simp add: example_request_def MethodPost_def)
  have h2: "Header_Get (Header ?r) ''Content-Type'' = ohttpRequestContentType"
    by (simp add: example_request_def Header_Get_def ohttpRequestContentType_def)
  have h3: "Body_ReadAll ?r = Inr []"
    by (simp add: example_request_def)
  have h4: "example_Unmarshal [] = Inl ''unexpected EOF''"
    by (simp add: example_Unmarshal_def)
  have h5: "rw_status (resp fresh_world) = None"
    by (simp add: fresh_world_def fresh_writer_def)
  have h6: "rw_body (resp fresh_world) = []" "fired fresh_world = []"
    by (simp_all add: fresh_world_def fresh_writer_def)
  have h7: "encapsulationHandlers (example_resource False) (URL_Path ?r) = Some example_handler"
    "\<not> debug (example_resource False)"
    by (simp_all add: example_resource_def example_request_def)
  from parse_failure_response [where unmarshal = example_Unmarshal and r = ?r
      and bs = "[]" and err = "''unexpected EOF''" and w = fresh_world
      and s = "example_resource False" and h = example_handler
      and s' = example_resource0, OF h1 h2 h3 h4 h5]
  show ?thesis using h1 h2 h3 h4 h5 h6 h7 by simp
qed

subsection \<open>The shared error path\<close>

text \<open>
  Claim C9. With the debug flag set, \<open>httpError\<close> answers with \<^verbatim>\<open>http.Error\<close>, which
  writes the debug message and a newline, and then writes the same message once more:
  the body grows by the message, a newline, and the message again. The hypothesis on
  the status says that the response may carry a body; it holds for the codes 400, 403
  and 500 the callers pass on a response nothing was written to.
\<close>

theorem httpError_debug_writes_message_twice:
  assumes "debug s"
    and "bodyAllowedForStatus (case rw_status (resp w) of None \<Rightarrow> status | Some c \<Rightarrow> c)"
  shows "resp (httpError s status debugMessage w) =
           Write debugMessage (http_Error debugMessage status (resp w)) \<and>
         rw_body (http_Error debugMessage status (resp w)) =
           rw_body (resp w) @ debugMessage @ newline \<and>
         rw_body (resp (httpError s status debugMessage w)) =
           rw_body (resp w) @ (debugMessage @ newline) @ debugMessage"
  using assms
  by (simp add: httpError_def Let_def world_simps writer_simps split: option.splits)

theorem httpError_debug_writes_message_twice_witness:
  "debug (example_resource True) \<and>
   bodyAllowedForStatus (case rw_status (resp fresh_world) of None \<Rightarrow> 400 | Some c \<Rightarrow> c) \<and>
   rw_body (resp (httpError (example_resource True) 400 ''Invalid method: GET'' fresh_world)) =
     ''Invalid method: GET'' @ newline @ ''Invalid method: GET''"
proof -
  have h1: "debug (example_resource True)"
    by (simp add: example_resource_def)
  have h2: "bodyAllowedForStatus
      (case rw_status (resp fresh_world) of None \<Rightarrow> 400 | Some c \<Rightarrow> c)"
    by (simp add: fresh_world_def fresh_writer_def bodyAllowedForStatus_def)
  have h3: "rw_body (resp fresh_world) = []"
    by (simp add: fresh_world_def fresh_writer_def)
  from httpError_debug_writes_message_twice [OF h1 h2, of "''Invalid method: GET''"]
  have b: "rw_body (resp (httpError (example_resource True) 400 ''Invalid method: GET''
      fresh_world)) =
    rw_body (resp fresh_world) @ (''Invalid method: GET'' @ newline) @ ''Invalid method: GET''"
    by blast
  show ?thesis using h1 h2 h3 b by simp
qed

subsection \<open>The allow-list\<close>

text \<open>
  Claim C8. With no list configured (the nil map) \<open>checkAllowList\<close> permits every target
  origin; with a list configured it permits exactly the origins that are keys of the
  map, whatever boolean is stored under the key.
\<close>

theorem checkAllowList_nil_or_member:
  "checkAllowList (s\<lparr>allowedOrigins := None\<rparr>) targetOrigin \<and>
   (checkAllowList (s\<lparr>allowedOrigins := Some m\<rparr>) targetOrigin \<longleftrightarrow> targetOrigin \<in> dom m)"
  by (auto simp add: checkAllowList_def split: option.splits)

subsection \<open>The key-configuration handler\<close>

lemma configHandler_resp:
  "resp (configHandler sample s r w) =
     (case Config (gateway s) (keyID s) of
        Inl err \<Rightarrow> http_Error ''Internal Server Error'' 500 (resp w)
      | Inr config \<Rightarrow>
          Write (Marshal_config config)
            (Set_Header ''Cache-Control''
               (''max-age='' @ Itoa (43200 + int sample mod 86400) @ '', private'') (resp w)))"
  by (simp add: configHandler_def Let_def world_simps StatusText_def
      StatusInternalServerError_def twelveHours_def twentyFourHours_def rand_Intn_def
      split: sum.splits)

lemma configHandler0_resp:
  "resp (configHandler0 s' r w) =
     (case Config (gateway s') (keyID s') of
        Inl err \<Rightarrow> http_Error ''Internal Server Error'' 500 (resp w)
      | Inr config \<Rightarrow> Write (Marshal_config config) (resp w))"
  by (simp add: configHandler0_def Let_def world_simps StatusText_def
      StatusInternalServerError_def split: sum.splits)

lemma configHandler_frame:
  "fired (configHandler sample s r w) = fired w"
  "handled (configHandler sample s r w) = handled w"
  "body_closed (configHandler sample s r w) = body_closed w"
  "fired (configHandler0 s' r w) = fired w"
  "handled (configHandler0 s' r w) = handled w"
  "body_closed (configHandler0 s' r w) = body_closed w"
  by (simp_all add: configHandler_def configHandler0_def Let_def world_simps split: sum.splits)

text \<open>
  Claim C10. The response of the key-configuration handler, the metric events, the
  handler calls and the state of the body do not depend on the method of the request, in
  either revision: the response is the status text of 500 when the configuration is
  unavailable and the serialised configuration otherwise. The method appears only in
  the line the handler logs on entry.
\<close>

theorem configHandler_ignores_method:
  "resp (configHandler sample s (r\<lparr>Method := m\<rparr>) w) = resp (configHandler sample s r w) \<and>
   resp (configHandler sample s r w) =
     (case Config (gateway s) (keyID s) of
        Inl err \<Rightarrow> http_Error ''Internal Server Error'' 500 (resp w)
      | Inr config \<Rightarrow>
          Write (Marshal_config config)
            (Set_Header ''Cache-Control''
               (''max-age='' @ Itoa (43200 + int sample mod 86400) @ '', private'') (resp w))) \<and>
   fired (configHandler sample s (r\<lparr>Method := m\<rparr>) w) = fired (configHandler sample s r w) \<and>
   handled (configHandler sample s (r\<lparr>Method := m\<rparr>) w) =
     handled (configHandler sample s r w) \<and>
   body_closed (configHandler sample s (r\<lparr>Method := m\<rparr>) w) =
     body_closed (configHandler sample s r w) \<and>
   resp (configHandler0 s' (r\<lparr>Method := m\<rparr>) w) = resp (configHandler0 s' r w) \<and>
   resp (configHandler0 s' r w) =
     (case Config (gateway s') (keyID s') of
        Inl err \<Rightarrow> http_Error ''Internal Server Error'' 500 (resp w)
      | Inr config \<Rightarrow> Write (Marshal_config config) (resp w)) \<and>
   fired (configHandler0 s' (r\<lparr>Method := m\<rparr>) w) = fired (configHandler0 s' r w) \<and>
   handled (configHandler0 s' (r\<lparr>Method := m\<rparr>) w) = handled (configHandler0 s' r w) \<and>
   body_closed (configHandler0 s' (r\<lparr>Method := m\<rparr>) w) =
     body_closed (configHandler0 s' r w)"
  by (simp add: configHandler_resp configHandler0_resp configHandler_frame)

lemma Write_header:
  "rw_header (Write bs w) = rw_header w"
  "rw_sent (Write bs w) = (case rw_status w of None \<Rightarrow> rw_header w | Some _ \<Rightarrow> rw_sent w)"
  by (simp_all add: Write_def WriteHeader_def Let_def split: option.splits)

lemma Set_Header_header:
  "rw_header (Set_Header k v w) = (rw_header w)(k \<mapsto> [v])"
  "rw_sent (Set_Header k v w) = rw_sent w"
  by (simp_all add: Set_Header_def Header_Set_def)

text \<open>
  Claim C3. When the configuration is available, the handler of \<^verbatim>\<open>gateway.go\<close> sets
  \<open>Cache-Control\<close> to \<open>max-age=N, private\<close> where \<open>N\<close> is 43200 plus the sample
  reduced modulo 86400, a number from 43200 up to but excluding 129600. On a response
  nothing was written to, the header is part of what is sent with status 200, and the
  body is the serialised configuration.
\<close>

theorem configHandler_cache_control:
  assumes "Config (gateway s) (keyID s) = Inr config"
    and "rw_status (resp w) = None"
  shows "43200 \<le> 43200 + int sample mod 86400 \<and>
         43200 + int sample mod 86400 < 129600 \<and>
         rw_header (resp (configHandler sample s r w)) ''Cache-Control'' =
           Some [''max-age='' @ Itoa (43200 + int sample mod 86400) @ '', private''] \<and>
         rw_sent (resp (configHandler sample s r w)) ''Cache-Control'' =
           Some [''max-age='' @ Itoa (43200 + int sample mod 86400) @ '', private''] \<and>
         rw_status (resp (configHandler sample s r w)) = Some 200 \<and>
         rw_body (resp (configHandler sample s r w)) = rw_body (resp w) @ Marshal_config config"
  using assms
  by (simp add: configHandler_resp Write_header Set_Header_header writer_simps
      bodyAllowedForStatus_def)

theorem configHandler_cache_control_witness:
  "Config (gateway (example_resource False)) (keyID (example_resource False)) =
     Inr (PublicConfig ''key-config'') \<and>
   rw_status (resp fresh_world) = None \<and>
   rw_sent (resp (configHandler 100000 (example_resource False) (example_request ''GET'' [])
     fresh_world)) ''Cache-Control'' = Some [''max-age=56800, private'']"
proof -
  have h1: "Config (gateway (example_resource False)) (keyID (example_resource False)) =
     Inr (PublicConfig ''key-config'')"
    by (simp add: example_resource_def example_gateway_def)
  have h2: "rw_status (resp fresh_world) = None"
    by (simp add: fresh_world_def fresh_writer_def)
  have h3: "Itoa 56800 = ''56800''"
    by (simp add: Itoa_def dec_nat.simps digit_char_def)
  from configHandler_cache_control [OF h1 h2, of 100000 "example_request ''GET'' []"]
  show ?thesis using h1 h2 h3 by simp
qed

subsection \<open>The debug marshal handler\<close>

lemma marshalHandler_forbidden_status:
  assumes "\<not> debug s" and "rw_status (resp w) = None"
  shows "rw_status (resp (marshalHandler s r w)) = Some 403"
  using assms
  by (simp add: marshalHandler_def Let_def case_prod_beta world_simps writer_simps
      StatusForbidden_def split: option.splits sum.splits)

lemma marshalHandler_forbidden_fired:
  assumes "\<not> debug s"
  shows "\<exists>more. fired (marshalHandler s r w) =
           fired w @ (''marshal_request'', metricsResultRequested) # more"
  using assms
  by (simp add: marshalHandler_def Let_def case_prod_beta world_simps
      metricsEventMarshalRequest_def split: option.splits sum.splits)

lemma marshalHandler_forbidden_body:
  assumes "\<not> debug s" and "rw_status (resp w) = None"
  shows "\<exists>rest. rest \<noteq> [] \<and>
           rw_body (resp (marshalHandler s r w)) =
             rw_body (resp w) @ ''Forbidden'' @ newline @ rest"
  using assms
  by (simp add: marshalHandler_def Let_def case_prod_beta world_simps writer_simps
      httpError_body StatusForbidden_def StatusBadRequest_def StatusInternalServerError_def
      StatusText_def bodyAllowedForStatus_def newline_def split: option.splits sum.splits)

lemma marshalHandler_handled:
  assumes "Method r = MethodPost" and "encapsulationHandlers s (URL_Path r) = Some h"
  shows "handled (marshalHandler s r w) =
           handled w @ [HandleCall (URL_Path r) EncapsulatedRequest_zero]"
  using assms
  by (simp add: marshalHandler_def Let_def case_prod_beta world_simps
      split: option.splits sum.splits)

text \<open>
  Claim C5. With the debug flag off, on a response nothing was written to, the marshal
  handler answers 403 with the fixed text \<open>Forbidden\<close> and a newline, and goes on: it
  fires \<open>requested\<close> under \<open>marshal_request\<close>, it writes more to the body after the 403
  text on every path, and for a POST request to a path with a registered handler it
  calls that handler with the zero encapsulated request.
\<close>

theorem marshalHandler_forbidden_then_proceeds:
  assumes "\<not> debug s" and "rw_status (resp w) = None"
  shows "rw_status (resp (marshalHandler s r w)) = Some 403 \<and>
         (\<exists>rest. rest \<noteq> [] \<and>
            rw_body (resp (marshalHandler s r w)) =
              rw_body (resp w) @ ''Forbidden'' @ newline @ rest) \<and>
         (\<exists>more. fired (marshalHandler s r w) =
            fired w @ (''marshal_request'', metricsResultRequested) # more) \<and>
         (Method r = MethodPost \<and> encapsulationHandlers s (URL_Path r) = Some h \<longrightarrow>
            handled (marshalHandler s r w) =
              handled w @ [HandleCall (URL_Path r) EncapsulatedRequest_zero])"
  using assms marshalHandler_forbidden_status [of s w r] marshalHandler_forbidden_fired [of s r w]
    marshalHandler_forbidden_body [of s w r] marshalHandler_handled [of r s h w]
  by blast

theorem marshalHandler_forbidden_then_proceeds_witness:
  "\<not> debug (example_resource False) \<and>
   rw_status (resp fresh_world) = None \<and>
   Method (example_request ''POST'' []) = MethodPost \<and>
   encapsulationHandlers (example_resource False) (URL_Path (example_request ''POST'' [])) =
     Some example_handler \<and>
   rw_status (resp (marshalHandler (example_resource False) (example_request ''POST'' [])
     fresh_world)) = Some 403 \<and>
   handled (marshalHandler (example_resource False) (example_request ''POST'' [])
     fresh_world) = [HandleCall ''/gateway'' EncapsulatedRequest_zero]"
proof -
  let ?r = "example_request ''POST'' []"
  have h1: "\<not> debug (example_resource False)"
    by (simp add: example_resource_def)
  have h2: "rw_status (resp fresh_world) = None"
    by (simp add: fresh_world_def fresh_writer_def)
  have h3: "Method ?r = MethodPost"
    by (simp add: example_request_def MethodPost_def)
  have h4: "encapsulationHandlers (example_resource False) (URL_Path ?r) = Some example_handler"
    by (simp add: example_resource_def example_request_def)
  have h5: "handled fresh_world = []" "URL_Path ?r = ''/gateway''"
    by (simp_all add: fresh_world_def example_request_def)
  from marshalHandler_forbidden_then_proceeds [OF h1 h2, of ?r example_handler]
  show ?thesis using h1 h2 h3 h4 h5 by simp
qed

text \<open>The marshal handler on a POST request to the example path, whose handler
  succeeds: every statement of the success path runs, in the order of the source.\<close>

lemma marshalHandler_example:
  "marshalHandler (example_resource dbg) (example_request ''POST'' []) fresh_world =
     Fire ''marshal_request'' ''success''
      (on_resp (Write ''packed'')
        (on_resp (Set_Header ''Content-Length'' ''6'')
          (on_resp (Set_Header ''Content-Type'' ''message/ohttp-res'')
            (on_resp (http_Error ''Internal Server Error'' 500)
              (httpError (example_resource dbg) 500 ''Config unavailable''
                (snd (Handle ''/gateway'' example_handler (example_request ''POST'' [])
                   EncapsulatedRequest_zero ''marshal_request''
                   (Fire ''marshal_request'' metricsResultRequested
                     (if dbg then fresh_world
                      else httpError (example_resource dbg) 403
                        ''Forbidden. Allowed in debug mode only.'' fresh_world)))))))))"
  by (simp add: marshalHandler_def Let_def case_prod_beta Handle_simps
      example_resource_def example_request_def example_handler_def MethodPost_def
      metricsEventMarshalRequest_def metricsResultSuccess_def StatusForbidden_def
      StatusInternalServerError_def StatusText_def ohttpResponseContentType_def
      Itoa_def dec_nat.simps digit_char_def)

text \<open>
  Claim C6, evaluated where it fails. On a POST request to a path whose handler
  succeeds, the two statements that write the 500 response run before the content is
  written: with the debug flag on, the response has status 500 and its body holds
  \<open>Config unavailable\<close> twice and the status text of 500 before the content; with the
  debug flag off, the status is the 403 written first and the body holds the status text
  of 500 twice before the content.
\<close>

theorem marshalHandler_config_unavailable_reached:
  "rw_status (resp (marshalHandler (example_resource True) (example_request ''POST'' [])
     fresh_world)) = Some 500 \<and>
   rw_body (resp (marshalHandler (example_resource True) (example_request ''POST'' [])
     fresh_world)) =
     ''Config unavailable'' @ newline @ ''Config unavailable'' @
     ''Internal Server Error'' @ newline @ ''packed'' \<and>
   rw_status (resp (marshalHandler (example_resource False) (example_request ''POST'' [])
     fresh_world)) = Some 403 \<and>
   rw_body (resp (marshalHandler (example_resource False) (example_request ''POST'' [])
     fresh_world)) =
     ''Forbidden'' @ newline @ ''Internal Server Error'' @ newline @
     ''Internal Server Error'' @ newline @ ''packed''"
  unfolding marshalHandler_example
  by (simp add: world_simps writer_simps httpError_body example_resource_def
      fresh_world_def fresh_writer_def bodyAllowedForStatus_def StatusText_def)

end
